theory Spec2Isabelle
  imports Complex_Main
begin

section \<open>Points and scene items\<close>

text \<open>
  The game (src/index.ts) is a single class \<open>Game\<close> driven by callbacks of the paper.js
  scene graph. JavaScript numbers are modelled as exact reals: rounding of IEEE doubles,
  NaN and signed zero are outside the model. A \<open>paper.Point\<close> is a record of its two
  coordinates (the fields are called \<open>px\<close> and \<open>py\<close> here).
\<close>

record point =
  px :: real
  py :: real

definition add :: "point \<Rightarrow> point \<Rightarrow> point" where
  "add p q = \<lparr>px = px p + px q, py = py p + py q\<rparr>"

definition subtract :: "point \<Rightarrow> point \<Rightarrow> point" where
  "subtract p q = \<lparr>px = px p - px q, py = py p - py q\<rparr>"

definition multiply :: "point \<Rightarrow> real \<Rightarrow> point" where
  "multiply p k = \<lparr>px = px p * k, py = py p * k\<rparr>"

text \<open>
  The symbol definitions created in \<open>createScene\<close>, and the two imported vector graphics.
\<close>

datatype symbol = ShipSvg | StarSymbol | MineSymbol | LaserSymbol | ExplosionSymbol

text \<open>
  A \<open>paper.Item\<close> as far as the game reads and writes it: which symbol it instantiates,
  its position (the centre of its bounds), its rotation in degrees and its scaling.
\<close>

record item =
  symbolDef :: symbol
  position :: point
  rotation :: real
  scaling :: real

definition place :: "symbol \<Rightarrow> point \<Rightarrow> item" where
  "place s p = \<lparr>symbolDef = s, position = p, rotation = 0, scaling = 1\<rparr>"

definition translate :: "item \<Rightarrow> point \<Rightarrow> item" where
  "translate it d = it\<lparr>position := add (position it) d\<rparr>"

definition rotate :: "item \<Rightarrow> real \<Rightarrow> item" where
  "rotate it a = it\<lparr>rotation := rotation it + a\<rparr>"

definition scale :: "item \<Rightarrow> real \<Rightarrow> item" where
  "scale it k = it\<lparr>scaling := scaling it * k\<rparr>"

text \<open>
  The geometry the game takes from paper.js and that is not part of the repository:
  \<open>Point.angle\<close>, \<open>Point.normalize(length)\<close>, \<open>Item.hitTest(point, {fill: true, tolerance})\<close>,
  \<open>Item.bounds.width\<close>, and the assignment \<open>item.rotation = angle\<close> to an item whose
  content is not known to be symmetric (it rotates the item about the centre of its
  bounds, and the position is read from the new bounds afterwards). The model of the game
  is parametric in them.
\<close>

record paper =
  getAngle :: "point \<Rightarrow> real"
  normalizePt :: "point \<Rightarrow> real \<Rightarrow> point"
  hitTest :: "item \<Rightarrow> point \<Rightarrow> real \<Rightarrow> bool"
  boundsWidth :: "item \<Rightarrow> real"
  setRotation :: "item \<Rightarrow> real \<Rightarrow> item"

text \<open>
  \<open>Array.prototype.splice(i, 1)\<close>, which is also what \<open>Item.remove()\<close> does to the
  children of the item's group: the element at index \<open>i\<close> is dropped and the later ones
  move down by one; an index past the end changes nothing.
\<close>

definition removeAt :: "nat \<Rightarrow> 'a list \<Rightarrow> 'a list" where
  "removeAt i xs = take i xs @ drop (Suc i) xs"

section \<open>The game state\<close>

record game =
  width :: real
  height :: real
  laserDir :: "point list"
  numStars :: nat
  mouseVector :: point
  mouseSensetivity :: real
  ship :: item
  stars :: "item list"
  mines :: "item list"
  lasers :: "item list"
  explosions :: "item list"

text \<open>\<open>paper.view.center\<close>, set by \<open>resize\<close> to the middle of the play area.\<close>

definition viewCenter :: "game \<Rightarrow> point" where
  "viewCenter g = \<lparr>px = width g / 2, py = height g / 2\<rparr>"

section \<open>removeMine\<close>

text \<open>
  \<open>removeMine(mine)\<close>: every call site passes \<open>this.mines.children[j]\<close> for an index
  \<open>j\<close> below the length of the group, so the mine is given by that index.
\<close>

definition removeMine :: "game \<Rightarrow> nat \<Rightarrow> game" where
  "removeMine g j =
    (let explosion = place ExplosionSymbol (position (mines g ! j))
     in g\<lparr>explosions := explosions g @ [explosion], mines := removeAt j (mines g)\<rparr>)"

section \<open>The frame update\<close>

subsection \<open>Stars\<close>

text \<open>
  The remainder operator \<open>%\<close> of JavaScript on numbers: the result has the sign of the
  dividend (the quotient is truncated towards zero). The divisor is the width or the
  height of the play area, never zero.
\<close>

definition truncR :: "real \<Rightarrow> int" where
  "truncR r = (if 0 \<le> r then \<lfloor>r\<rfloor> else \<lceil>r\<rceil>)"

definition jsRem :: "real \<Rightarrow> real \<Rightarrow> real" where
  "jsRem a b = a - b * of_int (truncR (a / b))"

definition wrapStar :: "game \<Rightarrow> item \<Rightarrow> item" where
  "wrapStar g curStar =
    (let s1 = curStar\<lparr>position := (position curStar)\<lparr>px := jsRem (px (position curStar)) (width g)\<rparr>\<rparr>;
         s2 = (if px (position s1) < 0 then s1\<lparr>position := (position s1)\<lparr>px := width g\<rparr>\<rparr> else s1);
         s3 = s2\<lparr>position := (position s2)\<lparr>py := jsRem (py (position s2)) (height g)\<rparr>\<rparr>;
         s4 = (if py (position s3) < 0 then s3\<lparr>position := (position s3)\<lparr>py := height g\<rparr>\<rparr> else s3)
     in s4)"

definition starStep :: "paper \<Rightarrow> game \<Rightarrow> item \<Rightarrow> item" where
  "starStep P g curStar =
    wrapStar g (translate curStar
      (multiply (mouseVector g) (- 0.001 * mouseSensetivity g * boundsWidth P curStar)))"

subsection \<open>Mines\<close>

definition mineMove :: "paper \<Rightarrow> game \<Rightarrow> item \<Rightarrow> item" where
  "mineMove P g curMine =
    (let towardShip = normalizePt P (subtract (viewCenter g) (position curMine)) 3;
         m1 = translate curMine towardShip;
         m2 = translate m1 (multiply (mouseVector g) (- 0.006 * mouseSensetivity g))
     in rotate m2 1)"

definition mineBody :: "paper \<Rightarrow> game \<Rightarrow> nat \<Rightarrow> game" where
  "mineBody P g i =
    (let curMine = mineMove P g (mines g ! i);
         g1 = g\<lparr>mines := (mines g)[i := curMine]\<rparr>
     in if hitTest P curMine (position (ship g)) 30 then removeMine g1 i else g1)"

lemma length_removeAt: "length (removeAt i xs) = (if i < length xs then length xs - 1 else length xs)"
  by (auto simp: removeAt_def)

lemma length_mines_mineBody: "length (mines (mineBody P g i)) \<le> length (mines g)"
  by (simp add: mineBody_def removeMine_def Let_def length_removeAt)

function mineLoop :: "paper \<Rightarrow> game \<Rightarrow> nat \<Rightarrow> game" where
  "mineLoop P g i = (if i < length (mines g) then mineLoop P (mineBody P g i) (Suc i) else g)"
  by pat_completeness auto
termination
proof (relation "measure (\<lambda>(P :: paper, g :: game, i :: nat). length (mines g) - i)")
  show "wf (measure (\<lambda>(P :: paper, g :: game, i :: nat). length (mines g) - i))" by simp
next
  fix P :: paper and g :: game and i :: nat
  assume "i < length (mines g)"
  moreover have "length (mines (mineBody P g i)) \<le> length (mines g)"
    by (rule length_mines_mineBody)
  ultimately show "((P, mineBody P g i, Suc i), (P, g, i)) \<in> measure (\<lambda>(P :: paper, g :: game, i :: nat). length (mines g) - i)"
    by simp
qed

declare mineLoop.simps [simp del]

subsection \<open>Lasers\<close>

text \<open>
  Inside one iteration of the laser loop \<open>curLaser\<close> keeps being used after
  \<open>curLaser.remove()\<close>. \<open>remove()\<close> takes the item out of its group only while it is
  still a child; \<open>laserDir.splice(i, 1)\<close> is executed every time. The pair carried
  through the iteration is the game and whether \<open>curLaser\<close> is still in the group.
\<close>

definition removeCur :: "nat \<Rightarrow> game \<times> bool \<Rightarrow> game \<times> bool" where
  "removeCur i s = (if snd s then ((fst s)\<lparr>lasers := removeAt i (lasers (fst s))\<rparr>, False) else s)"

definition spliceDir :: "nat \<Rightarrow> game \<times> bool \<Rightarrow> game \<times> bool" where
  "spliceDir i s = ((fst s)\<lparr>laserDir := removeAt i (laserDir (fst s))\<rparr>, snd s)"

definition outOfBounds :: "game \<Rightarrow> item \<Rightarrow> bool" where
  "outOfBounds g curLaser \<longleftrightarrow>
     px (position curLaser) < 0 \<or> px (position curLaser) > width g \<or>
     py (position curLaser) < 0 \<or> py (position curLaser) > height g"

function hitLoop :: "paper \<Rightarrow> item \<Rightarrow> nat \<Rightarrow> game \<times> bool \<Rightarrow> nat \<Rightarrow> game \<times> bool" where
  "hitLoop P curLaser i s j =
    (if j < length (mines (fst s)) then
       (if hitTest P curLaser (position (mines (fst s) ! j)) 30
        then hitLoop P curLaser i (spliceDir i (removeCur i (removeMine (fst s) j, snd s))) (Suc j)
        else hitLoop P curLaser i s (Suc j))
     else s)"
  by pat_completeness auto
termination
  by (relation "measure (\<lambda>(P :: paper, c :: item, i :: nat, s :: game \<times> bool, j :: nat). length (mines (fst s)) - j)")
     (auto simp: spliceDir_def removeCur_def removeMine_def Let_def length_removeAt)

declare hitLoop.simps [simp del]

text \<open>
  \<open>this.laserDir[i]\<close> past the end of the array is \<open>undefined\<close>, which
  \<open>translate\<close> reads as the zero point.
\<close>

definition laserBody :: "paper \<Rightarrow> game \<Rightarrow> nat \<Rightarrow> game" where
  "laserBody P g i =
    (let d = (if i < length (laserDir g) then laserDir g ! i else \<lparr>px = 0, py = 0\<rparr>);
         curLaser = translate (lasers g ! i) d;
         g1 = g\<lparr>lasers := (lasers g)[i := curLaser]\<rparr>;
         s1 = (if outOfBounds g curLaser then spliceDir i (removeCur i (g1, True)) else (g1, True))
     in fst (hitLoop P curLaser i s1 0))"

lemma lasers_hitLoop_le:
  "length (lasers (fst (hitLoop P c i s j))) \<le> length (lasers (fst s))"
proof (induction P c i s j rule: hitLoop.induct)
  case (1 P c i s j)
  show ?case
  proof (cases "j < length (mines (fst s))")
    case False
    then show ?thesis by (simp add: hitLoop.simps [of P c i s j])
  next
    case True
    show ?thesis
    proof (cases "hitTest P c (position (mines (fst s) ! j)) 30")
      case hit: True
      have "length (lasers (fst (spliceDir i (removeCur i (removeMine (fst s) j, snd s)))))
              \<le> length (lasers (fst s))"
        by (simp add: spliceDir_def removeCur_def removeMine_def Let_def length_removeAt)
      with 1(1) [OF True hit] True hit show ?thesis
        by (simp add: hitLoop.simps [of P c i s j])
    next
      case nohit: False
      with 1(2) [OF True nohit] True show ?thesis
        by (simp add: hitLoop.simps [of P c i s j])
    qed
  qed
qed

lemma length_lasers_laserBody: "length (lasers (laserBody P g i)) \<le> length (lasers g)"
proof -
  let ?d = "if i < length (laserDir g) then laserDir g ! i else \<lparr>px = 0, py = 0\<rparr>"
  let ?c = "translate (lasers g ! i) ?d"
  let ?g1 = "g\<lparr>lasers := (lasers g)[i := ?c]\<rparr>"
  let ?s1 = "if outOfBounds g ?c then spliceDir i (removeCur i (?g1, True)) else (?g1, True)"
  have "length (lasers (fst ?s1)) \<le> length (lasers g)"
    by (simp add: spliceDir_def removeCur_def length_removeAt)
  moreover have "length (lasers (fst (hitLoop P ?c i ?s1 0))) \<le> length (lasers (fst ?s1))"
    by (rule lasers_hitLoop_le)
  ultimately show ?thesis
    unfolding laserBody_def Let_def by linarith
qed

function laserLoop :: "paper \<Rightarrow> game \<Rightarrow> nat \<Rightarrow> game" where
  "laserLoop P g i = (if i < length (lasers g) then laserLoop P (laserBody P g i) (Suc i) else g)"
  by pat_completeness auto
termination
proof (relation "measure (\<lambda>(P :: paper, g :: game, i :: nat). length (lasers g) - i)")
  show "wf (measure (\<lambda>(P :: paper, g :: game, i :: nat). length (lasers g) - i))" by simp
next
  fix P :: paper and g :: game and i :: nat
  assume "i < length (lasers g)"
  moreover have "length (lasers (laserBody P g i)) \<le> length (lasers g)"
    by (rule length_lasers_laserBody)
  ultimately show "((P, laserBody P g i, Suc i), (P, g, i)) \<in> measure (\<lambda>(P :: paper, g :: game, i :: nat). length (lasers g) - i)"
    by simp
qed

declare laserLoop.simps [simp del]

subsection \<open>Explosions\<close>

definition explosionBody :: "paper \<Rightarrow> game \<Rightarrow> nat \<Rightarrow> game" where
  "explosionBody P g i =
    (let curExplosion = scale (explosions g ! i) 1.3;
         g1 = g\<lparr>explosions := (explosions g)[i := curExplosion]\<rparr>
     in if boundsWidth P curExplosion > 100
        then g1\<lparr>explosions := removeAt i (explosions g1)\<rparr> else g1)"

function explosionLoop :: "paper \<Rightarrow> game \<Rightarrow> nat \<Rightarrow> game" where
  "explosionLoop P g i =
    (if i < length (explosions g) then explosionLoop P (explosionBody P g i) (Suc i) else g)"
  by pat_completeness auto
termination
  by (relation "measure (\<lambda>(P :: paper, g :: game, i :: nat). length (explosions g) - i)")
     (auto simp: explosionBody_def Let_def length_removeAt)

declare explosionLoop.simps [simp del]

subsection \<open>update\<close>

text \<open>
  \<open>update(event)\<close>: the event is not read. The five passes run in the order of the source;
  the star pass touches each star once and removes none.
\<close>

definition update :: "paper \<Rightarrow> game \<Rightarrow> game" where
  "update P g =
    (let g1 = g\<lparr>stars := map (starStep P g) (stars g)\<rparr>;
         g2 = mineLoop P g1 0;
         g3 = laserLoop P g2 0;
         g4 = explosionLoop P g3 0
     in if length (mines g4) > 30 then removeMine g4 0 else g4)"

section \<open>Input handlers and the spawner\<close>


definition onMouseDown :: "paper \<Rightarrow> game \<Rightarrow> game" where
  "onMouseDown P g =
    (let newLaser = (place LaserSymbol (position (ship g)))\<lparr>rotation := getAngle P (mouseVector g)\<rparr>
     in g\<lparr>laserDir := laserDir g @ [normalizePt P (mouseVector g) 7],
           lasers := lasers g @ [newLaser]\<rparr>)"

text \<open>
  \<open>pointOOB\<close>: the three calls of \<open>Math.random()\<close> are the arguments \<open>r0\<close> (which
  side), \<open>r1\<close> (drawn for \<open>xPos\<close>) and \<open>r2\<close> (drawn for \<open>yPos\<close>), each in \<open>[0, 1)\<close>.
\<close>

definition pointOOB :: "paper \<Rightarrow> game \<Rightarrow> real \<Rightarrow> real \<Rightarrow> real \<Rightarrow> point" where
  "pointOOB P g r0 r1 r2 =
    (let angle = getAngle P (mouseVector g) in
     if r0 < 0.75 then
       (if (angle < 45 \<and> angle \<ge> 0) \<or> (angle < 0 \<and> angle \<ge> -45)
          then \<lparr>px = 50 * r1 + width g, py = height g * r2\<rparr>
        else if angle \<le> -45 \<and> angle > -135
          then \<lparr>px = width g * r1, py = -50 * r2\<rparr>
        else if (angle \<le> 180 \<and> angle \<ge> 135) \<or> (angle < -135 \<and> angle \<ge> -180)
          then \<lparr>px = -50 * r1, py = height g * r2\<rparr>
        else \<lparr>px = width g * r1, py = 50 * r2 + height g\<rparr>)
     else
       (if (angle < 45 \<and> angle \<ge> 0) \<or> (angle < 0 \<and> angle \<ge> -45)
          then \<lparr>px = -50 * r1, py = height g * r2\<rparr>
        else if angle \<le> -45 \<and> angle > -135
          then \<lparr>px = width g * r1, py = 50 * r2 + height g\<rparr>
        else if (angle \<le> 180 \<and> angle \<ge> 135) \<or> (angle < -135 \<and> angle \<ge> -180)
          then \<lparr>px = 50 * r1 + width g, py = height g * r2\<rparr>
        else \<lparr>px = width g * r1, py = -50 * r2\<rparr>))"

definition spawnMine :: "paper \<Rightarrow> game \<Rightarrow> real \<Rightarrow> real \<Rightarrow> real \<Rightarrow> game" where
  "spawnMine P g r0 r1 r2 =
    (let placed = place MineSymbol (pointOOB P g r0 r1 r2)
     in g\<lparr>mines := mines g @ [placed]\<rparr>)"

text \<open>
  The state after the constructor and \<open>createScene\<close>: a play area of 1200 by 800, no
  lasers, mines or explosions, the ship scaled by 3 in the middle of the play area. The
  stars are placed at random points with random scalings, so they are an argument.
\<close>

definition newGame :: "item list \<Rightarrow> game" where
  "newGame placedStars =
    \<lparr>width = 1200, height = 800, laserDir = [], numStars = 150,
     mouseVector = \<lparr>px = 0, py = 0\<rparr>, mouseSensetivity = 4,
     ship = \<lparr>symbolDef = ShipSvg, position = \<lparr>px = 1200 / 2, py = 800 / 2\<rparr>,
             rotation = 0, scaling = 3\<rparr>,
     stars = placedStars, mines = [], lasers = [], explosions = []\<rparr>"

text \<open>The part of the state that no pass of the frame update assigns.\<close>

definition fixedPart :: "game \<Rightarrow> real \<times> real \<times> nat \<times> point \<times> real \<times> item" where
  "fixedPart g = (width g, height g, numStars g, mouseVector g, mouseSensetivity g, ship g)"

section \<open>An idealised paper.js\<close>

text \<open>
  To run the model on concrete states the library operations are instantiated with exact
  plane geometry: the angle of a vector in degrees (\<open>atan2\<close>), scaling a vector to a given
  length, a hit test that accepts the points within the tolerance of the item's position,
  and the bounds width of the two circle symbols (radius 2 for a star, radius 1 for an
  explosion; the game reads no other width). Assigning a rotation turns the outline of the
  item about the centre of its bounding box and moves the position to the centre of the
  new bounding box. The ship graphic (\<open>assets/ship.svg\<close>) is not among the sources: its
  outline is taken to be a triangle with the nose up; the other symbols are symmetric
  about their centre, so their outline is that one point.
\<close>

definition pointAngle :: "point \<Rightarrow> real" where
  "pointAngle p =
    (if px p > 0 then arctan (py p / px p)
     else if px p < 0 \<and> py p \<ge> 0 then arctan (py p / px p) + pi
     else if px p < 0 then arctan (py p / px p) - pi
     else if py p > 0 then pi / 2
     else if py p < 0 then - pi / 2
     else 0) * 180 / pi"

definition pointNormalize :: "point \<Rightarrow> real \<Rightarrow> point" where
  "pointNormalize p len =
    (let current = sqrt (px p * px p + py p * py p);
         k = (if current \<noteq> 0 then len / current else 0)
     in \<lparr>px = px p * k, py = py p * k\<rparr>)"

definition proximityHit :: "item \<Rightarrow> point \<Rightarrow> real \<Rightarrow> bool" where
  "proximityHit it p tolerance \<longleftrightarrow>
     (px p - px (position it)) * (px p - px (position it))
       + (py p - py (position it)) * (py p - py (position it)) \<le> tolerance * tolerance"

definition circleWidth :: "item \<Rightarrow> real" where
  "circleWidth it =
    (case symbolDef it of StarSymbol \<Rightarrow> 4 | ExplosionSymbol \<Rightarrow> 2 | _ \<Rightarrow> 0) * scaling it"

definition rotatePt :: "real \<Rightarrow> point \<Rightarrow> point" where
  "rotatePt a p =
    \<lparr>px = px p * cos (a * pi / 180) - py p * sin (a * pi / 180),
     py = px p * sin (a * pi / 180) + py p * cos (a * pi / 180)\<rparr>"

definition boxCentre :: "point list \<Rightarrow> point" where
  "boxCentre ps =
    \<lparr>px = (fold min (map px ps) (px (hd ps)) + fold max (map px ps) (px (hd ps))) / 2,
     py = (fold min (map py ps) (py (hd ps)) + fold max (map py ps) (py (hd ps))) / 2\<rparr>"

definition outline :: "symbol \<Rightarrow> point list" where
  "outline s =
    (case s of
       ShipSvg \<Rightarrow> [\<lparr>px = 0, py = - 2\<rparr>, \<lparr>px = - 1, py = 1\<rparr>, \<lparr>px = 1, py = 1\<rparr>]
     | _ \<Rightarrow> [\<lparr>px = 0, py = 0\<rparr>])"

definition rotateTo :: "item \<Rightarrow> real \<Rightarrow> item" where
  "rotateTo it a =
    (let ps = outline (symbolDef it);
         before = boxCentre (map (rotatePt (rotation it)) ps);
         after = boxCentre (map (rotatePt a) ps);
         shift = subtract after (rotatePt (a - rotation it) before)
     in it\<lparr>rotation := a, position := add (position it) (multiply shift (scaling it))\<rparr>)"

definition idealPaper :: paper where
  "idealPaper = \<lparr>getAngle = pointAngle, normalizePt = pointNormalize,
                  hitTest = proximityHit, boundsWidth = circleWidth,
                  setRotation = rotateTo\<rparr>"

section \<open>The edges of the play area\<close>

text \<open>
  The four edges past which \<open>pointOOB\<close> places a point, and the point on each: the
  coordinate along the edge spans the play area, the other one lies in a band of 50 units
  beyond the edge.
\<close>

datatype edge = RightEdge | TopEdge | LeftEdge | BottomEdge

definition edgePoint :: "game \<Rightarrow> edge \<Rightarrow> real \<Rightarrow> real \<Rightarrow> point" where
  "edgePoint g e r1 r2 =
    (case e of
       RightEdge \<Rightarrow> \<lparr>px = width g + 50 * r1, py = height g * r2\<rparr>
     | TopEdge \<Rightarrow> \<lparr>px = width g * r1, py = - (50 * r2)\<rparr>
     | LeftEdge \<Rightarrow> \<lparr>px = - (50 * r1), py = height g * r2\<rparr>
     | BottomEdge \<Rightarrow> \<lparr>px = width g * r1, py = height g + 50 * r2\<rparr>)"

definition oppositeEdge :: "edge \<Rightarrow> edge" where
  "oppositeEdge e = (case e of RightEdge \<Rightarrow> LeftEdge | TopEdge \<Rightarrow> BottomEdge
                      | LeftEdge \<Rightarrow> RightEdge | BottomEdge \<Rightarrow> TopEdge)"

text \<open>
  The buckets as the specification words them: \<open>[0,45)\<close> or \<open>(-45,0]\<close> right,
  \<open>(-135,-45]\<close> top, \<open>[135,180]\<close> or \<open>[-180,-135)\<close> left, anything else bottom.
\<close>

definition specEdge :: "real \<Rightarrow> edge" where
  "specEdge a =
    (if (0 \<le> a \<and> a < 45) \<or> (- 45 < a \<and> a \<le> 0) then RightEdge
     else if - 135 < a \<and> a \<le> - 45 then TopEdge
     else if (135 \<le> a \<and> a \<le> 180) \<or> (- 180 \<le> a \<and> a < - 135) then LeftEdge
     else BottomEdge)"

text \<open>
  The buckets of the comparisons in \<open>pointOOB\<close>, taken in the order of its branches:
  \<open>[-45,45)\<close> right, \<open>(-135,-45)\<close> top, \<open>[135,180]\<close> or \<open>[-180,-135)\<close> left,
  anything else bottom.
\<close>

definition aheadEdge :: "real \<Rightarrow> edge" where
  "aheadEdge a =
    (if - 45 \<le> a \<and> a < 45 then RightEdge
     else if - 135 < a \<and> a < - 45 then TopEdge
     else if (135 \<le> a \<and> a \<le> 180) \<or> (- 180 \<le> a \<and> a < - 135) then LeftEdge
     else BottomEdge)"

section \<open>Auxiliary definitions\<close>

text \<open>The state after the four passes of \<open>update\<close>, before the population cap is applied.\<close>

definition passes :: "paper \<Rightarrow> game \<Rightarrow> game" where
  "passes P g =
     explosionLoop P (laserLoop P (mineLoop P (g\<lparr>stars := map (starStep P g) (stars g)\<rparr>) 0) 0) 0"

text \<open>The direction the laser loop reads at index \<open>i\<close>.\<close>

definition dirAt :: "game \<Rightarrow> nat \<Rightarrow> point" where
  "dirAt g i = (if i < length (laserDir g) then laserDir g ! i else \<lparr>px = 0, py = 0\<rparr>)"

section \<open>Example states\<close>

text \<open>Two lasers that are both beyond the right edge, and no mines.\<close>

definition twoStrayLasers :: game where
  "twoStrayLasers =
    (newGame [])\<lparr>lasers := [place LaserSymbol \<lparr>px = 1300, py = 400\<rparr>,
                              place LaserSymbol \<lparr>px = 1300, py = 400\<rparr>],
                  laserDir := [\<lparr>px = 7, py = 0\<rparr>, \<lparr>px = 7, py = 0\<rparr>]\<rparr>"

text \<open>\<open>n\<close> mines just beyond the right edge, far from the ship.\<close>

definition crowd :: "nat \<Rightarrow> game" where
  "crowd n = (newGame [])\<lparr>mines := replicate n (place MineSymbol \<lparr>px = 1230, py = 400\<rparr>)\<rparr>"

text \<open>
  Two lasers and a mine: the first laser is about to cross the right edge, and the mine
  beyond that edge comes within the tolerance of it in the same frame.
\<close>

definition strayShot :: game where
  "strayShot =
    (newGame [])\<lparr>mouseVector := \<lparr>px = 100, py = 0\<rparr>,
                  lasers := [place LaserSymbol \<lparr>px = 1196, py = 400\<rparr>,
                             place LaserSymbol \<lparr>px = 600, py = 400\<rparr>],
                  laserDir := [\<lparr>px = 7, py = 0\<rparr>, \<lparr>px = 7, py = 0\<rparr>],
                  mines := [place MineSymbol \<lparr>px = 1230, py = 400\<rparr>]\<rparr>"

text \<open>A laser in the middle of the play area whose next step brings it within the tolerance of a mine.\<close>

definition closeShot :: game where
  "closeShot =
    (newGame [])\<lparr>lasers := [place LaserSymbol \<lparr>px = 660, py = 400\<rparr>],
                  laserDir := [\<lparr>px = 7, py = 0\<rparr>],
                  mines := [place MineSymbol \<lparr>px = 700, py = 400\<rparr>]\<rparr>"

text \<open>The state right after one shot to the right from the initial state.\<close>

definition fired :: game where
  "fired = onMouseDown idealPaper ((newGame [])\<lparr>mouseVector := \<lparr>px = 100, py = 0\<rparr>\<rparr>)"

section \<open>What the frame update leaves alone\<close>










section \<open>Destroying and spawning mines\<close>

text \<open>
  Claim C7. A call of \<open>removeMine\<close> on a mine of the group appends exactly one explosion,
  placed at the position of that mine, to the explosion group and takes exactly that one
  mine out of the mine group; nothing else changes. The three triggers (collision with
  the ship, laser hit, population cap) all go through this one operation.
\<close>

theorem removeMine_one_explosion_one_mine:
  assumes "j < length (mines g)"
  shows "explosions (removeMine g j) = explosions g @ [place ExplosionSymbol (position (mines g ! j))]
       \<and> length (explosions (removeMine g j)) = length (explosions g) + 1
       \<and> position (last (explosions (removeMine g j))) = position (mines g ! j)
       \<and> mines (removeMine g j) = take j (mines g) @ drop (Suc j) (mines g)
       \<and> length (mines (removeMine g j)) + 1 = length (mines g)
       \<and> lasers (removeMine g j) = lasers g \<and> laserDir (removeMine g j) = laserDir g
       \<and> stars (removeMine g j) = stars g \<and> ship (removeMine g j) = ship g"
  using assms by (simp add: removeMine_def Let_def removeAt_def place_def)

theorem removeMine_one_explosion_one_mine_witness:
  "explosions (removeMine ((newGame [])\<lparr>mines := [place MineSymbol \<lparr>px = 10, py = 20\<rparr>,
                                                 place MineSymbol \<lparr>px = 30, py = 40\<rparr>]\<rparr>) 1)
     = [place ExplosionSymbol \<lparr>px = 30, py = 40\<rparr>]
   \<and> mines (removeMine ((newGame [])\<lparr>mines := [place MineSymbol \<lparr>px = 10, py = 20\<rparr>,
                                                place MineSymbol \<lparr>px = 30, py = 40\<rparr>]\<rparr>) 1)
     = [place MineSymbol \<lparr>px = 10, py = 20\<rparr>]"
  using removeMine_one_explosion_one_mine
    [of 1 "(newGame [])\<lparr>mines := [place MineSymbol \<lparr>px = 10, py = 20\<rparr>,
                                  place MineSymbol \<lparr>px = 30, py = 40\<rparr>]\<rparr>"]
  by (simp add: newGame_def place_def)

text \<open>
  Claim C8. One firing of the spawner appends exactly one new mine, placed at the point
  that \<open>pointOOB\<close> produces, to the mine group. It does so whatever the current number of
  mines is, and it removes nothing: the mines present before are all kept, in order, and
  lasers, directions and explosions are untouched. (The period of 750 ms is the argument
  of \<open>setInterval\<close> and has no counterpart in the model.)
\<close>

theorem spawnMine_adds_one:
  "mines (spawnMine P g r0 r1 r2) = mines g @ [place MineSymbol (pointOOB P g r0 r1 r2)]
   \<and> length (mines (spawnMine P g r0 r1 r2)) = length (mines g) + 1
   \<and> position (last (mines (spawnMine P g r0 r1 r2))) = pointOOB P g r0 r1 r2
   \<and> lasers (spawnMine P g r0 r1 r2) = lasers g
   \<and> laserDir (spawnMine P g r0 r1 r2) = laserDir g
   \<and> explosions (spawnMine P g r0 r1 r2) = explosions g"
  by (simp add: spawnMine_def Let_def place_def)

section \<open>The wrap rule of the stars\<close>

lemma jsRem_nonneg:
  assumes "0 \<le> a" "0 < b"
  shows "0 \<le> jsRem a b \<and> jsRem a b < b"
proof -
  have q: "0 \<le> a / b" using assms by simp
  have t: "truncR (a / b) = \<lfloor>a / b\<rfloor>" using q by (simp add: truncR_def)
  have lo: "of_int \<lfloor>a / b\<rfloor> \<le> a / b" by (rule of_int_floor_le)
  have hi: "a / b < of_int \<lfloor>a / b\<rfloor> + 1" by linarith
  have ab: "a / b * b = a" using assms(2) by simp
  have "of_int \<lfloor>a / b\<rfloor> * b \<le> a / b * b"
    using lo assms(2) by (intro mult_right_mono) simp_all
  then have "b * of_int \<lfloor>a / b\<rfloor> \<le> a"
    using ab by (simp add: mult.commute)
  moreover have "a / b * b < (of_int \<lfloor>a / b\<rfloor> + 1) * b"
    using hi assms(2) by (intro mult_strict_right_mono) simp_all
  then have "a < b * (of_int \<lfloor>a / b\<rfloor> + 1)"
    using ab by (simp add: mult.commute)
  ultimately show ?thesis
    by (simp add: jsRem_def t algebra_simps)
qed

lemma jsRem_small_negative:
  assumes "- b < a" "a < 0"
  shows "jsRem a b = a"
proof -
  have b: "0 < b" using assms by linarith
  have "a / b < 0" using assms b by (simp add: divide_neg_pos)
  moreover have "- 1 < a / b" using assms b by (simp add: pos_less_divide_eq)
  ultimately have "truncR (a / b) = 0"
    by (auto simp: truncR_def ceiling_eq_iff)
  then show ?thesis by (simp add: jsRem_def)
qed

lemma px_wrapStar:
  "px (position (wrapStar g s)) =
     (if jsRem (px (position s)) (width g) < 0 then width g else jsRem (px (position s)) (width g))"
  by (simp add: wrapStar_def Let_def)

lemma py_wrapStar:
  "py (position (wrapStar g s)) =
     (if jsRem (py (position s)) (height g) < 0 then height g else jsRem (py (position s)) (height g))"
  by (simp add: wrapStar_def Let_def)

text \<open>
  Claim C6. One application of the wrap rule takes a star at \<open>x = width + 5\<close> to an
  \<open>x\<close> in \<open>[0, width)\<close> and a star at \<open>x = -3\<close> to \<open>x = width\<close> (the maximum bound, not
  \<open>width - 3\<close>); the same holds for \<open>y\<close> with \<open>height\<close>, and each coordinate is wrapped
  without regard to the other. The play area is wider and higher than 3 units (it is
  1200 by 800).
\<close>

theorem wrapStar_rule:
  assumes "3 < width g" and "3 < height g"
  shows "(px (position s) = width g + 5 \<longrightarrow>
            0 \<le> px (position (wrapStar g s)) \<and> px (position (wrapStar g s)) < width g)
       \<and> (px (position s) = - 3 \<longrightarrow> px (position (wrapStar g s)) = width g)
       \<and> (py (position s) = height g + 5 \<longrightarrow>
            0 \<le> py (position (wrapStar g s)) \<and> py (position (wrapStar g s)) < height g)
       \<and> (py (position s) = - 3 \<longrightarrow> py (position (wrapStar g s)) = height g)
       \<and> px (position (wrapStar g s)) = px (position (wrapStar g (s\<lparr>position := (position s)\<lparr>py := v\<rparr>\<rparr>)))
       \<and> py (position (wrapStar g s)) = py (position (wrapStar g (s\<lparr>position := (position s)\<lparr>px := v\<rparr>\<rparr>)))"
proof -
  have x5: "0 \<le> jsRem (width g + 5) (width g) \<and> jsRem (width g + 5) (width g) < width g"
    using assms(1) by (intro jsRem_nonneg) simp_all
  have y5: "0 \<le> jsRem (height g + 5) (height g) \<and> jsRem (height g + 5) (height g) < height g"
    using assms(2) by (intro jsRem_nonneg) simp_all
  have x3: "jsRem (- 3) (width g) = - 3"
    using assms(1) by (intro jsRem_small_negative) simp_all
  have y3: "jsRem (- 3) (height g) = - 3"
    using assms(2) by (intro jsRem_small_negative) simp_all
  show ?thesis
    using x5 y5 x3 y3 by (simp add: px_wrapStar py_wrapStar)
qed

theorem wrapStar_rule_witness:
  "3 < width (newGame []) \<and> 3 < height (newGame [])
   \<and> 0 \<le> px (position (wrapStar (newGame []) (place StarSymbol \<lparr>px = 1205, py = - 3\<rparr>)))
   \<and> px (position (wrapStar (newGame []) (place StarSymbol \<lparr>px = 1205, py = - 3\<rparr>))) < 1200
   \<and> py (position (wrapStar (newGame []) (place StarSymbol \<lparr>px = 1205, py = - 3\<rparr>))) = 800"
  using wrapStar_rule [of "newGame []" "place StarSymbol \<lparr>px = 1205, py = - 3\<rparr>"]
  by (simp add: newGame_def place_def)

section \<open>Off-screen points\<close>

lemma pointOOB_edgePoint:
  "pointOOB P g r0 r1 r2 =
     edgePoint g (if r0 < 0.75 then aheadEdge (getAngle P (mouseVector g))
                  else oppositeEdge (aheadEdge (getAngle P (mouseVector g)))) r1 r2"
  by (simp add: pointOOB_def Let_def aheadEdge_def oppositeEdge_def edgePoint_def)

lemma aheadEdge_specEdge: "a \<noteq> - 45 \<Longrightarrow> aheadEdge a = specEdge a"
  by (auto simp: aheadEdge_def specEdge_def)

text \<open>
  Claim C3, as amended. In the ahead branch (\<open>r0 < 0.75\<close>) the angle selects the edge by
  the buckets \<open>[-45,45)\<close> right, \<open>(-135,-45)\<close> top, \<open>[135,180]\<close> or \<open>[-180,-135)\<close>
  left, every other angle bottom; the behind branch takes the opposite edge of the same
  bucket. The angle \<open>-45\<close> itself belongs to the right edge.
\<close>

theorem pointOOB_edges:
  "pointOOB P g r0 r1 r2 =
     edgePoint g (if r0 < 0.75 then aheadEdge (getAngle P (mouseVector g))
                  else oppositeEdge (aheadEdge (getAngle P (mouseVector g)))) r1 r2"
  by (rule pointOOB_edgePoint)

lemma pointAngle_up_right: "pointAngle \<lparr>px = 1, py = - 1\<rparr> = - 45"
  by (simp add: pointAngle_def arctan_minus arctan_one)

text \<open>
  Claim C3 as stated fails at the angle \<open>-45\<close>: the specification puts it in the top
  bucket \<open>(-135,-45]\<close>, the first comparison of \<open>pointOOB\<close> (\<open>angle >= -45\<close>) has already
  sent it to the right edge.
\<close>

theorem pointOOB_minus45_counterexample:
  "pointOOB idealPaper ((newGame [])\<lparr>mouseVector := \<lparr>px = 1, py = - 1\<rparr>\<rparr>) (1/2) (1/2) (1/2)
     \<noteq> edgePoint ((newGame [])\<lparr>mouseVector := \<lparr>px = 1, py = - 1\<rparr>\<rparr>)
          (specEdge (getAngle idealPaper (mouseVector ((newGame [])\<lparr>mouseVector := \<lparr>px = 1, py = - 1\<rparr>\<rparr>))))
          (1/2) (1/2)"
  by (simp add: pointOOB_def Let_def idealPaper_def pointAngle_up_right specEdge_def edgePoint_def
      newGame_def)

lemma pointAngle_zero: "pointAngle \<lparr>px = 0, py = 0\<rparr> = 0"
  by (simp add: pointAngle_def)

text \<open>
  Claim C4 as stated fails when \<open>Math.random()\<close> returns 0 for the band: at angle 0
  in the ahead branch the point then has \<open>x = width\<close>, which is on the edge of the play
  area and not beyond it.
\<close>

theorem pointOOB_on_edge_counterexample:
  "\<not> px (pointOOB idealPaper (newGame []) 0 0 (1/2)) > width (newGame [])"
  by (simp add: pointOOB_def Let_def idealPaper_def pointAngle_zero newGame_def)

text \<open>
  Claim C4, as amended. For draws in \<open>[0, 1)\<close> the generated point is never strictly
  inside the play area: it lies beyond an edge or on it. At aim angle 0 the ahead branch
  yields \<open>x \<ge> width\<close> and the behind branch \<open>x \<le> 0\<close>.
\<close>

theorem pointOOB_not_inside:
  assumes "0 \<le> r1" and "0 \<le> r2"
  shows "\<not> (0 < px (pointOOB P g r0 r1 r2) \<and> px (pointOOB P g r0 r1 r2) < width g
            \<and> 0 < py (pointOOB P g r0 r1 r2) \<and> py (pointOOB P g r0 r1 r2) < height g)
       \<and> (getAngle P (mouseVector g) = 0 \<and> r0 < 0.75 \<longrightarrow> width g \<le> px (pointOOB P g r0 r1 r2))
       \<and> (getAngle P (mouseVector g) = 0 \<and> \<not> r0 < 0.75 \<longrightarrow> px (pointOOB P g r0 r1 r2) \<le> 0)"
  using assms
  by (simp add: pointOOB_edgePoint aheadEdge_def oppositeEdge_def edgePoint_def split: edge.splits)

theorem pointOOB_not_inside_witness:
  "(0::real) \<le> 1/2
   \<and> getAngle idealPaper (mouseVector (newGame [])) = 0
   \<and> width (newGame []) \<le> px (pointOOB idealPaper (newGame []) 0 (1/2) (1/2))
   \<and> px (pointOOB idealPaper (newGame []) 1 (1/2) (1/2)) \<le> 0"
  using pointOOB_not_inside [of "1/2" "1/2" idealPaper "newGame []" 0]
    pointOOB_not_inside [of "1/2" "1/2" idealPaper "newGame []" 1]
  by (simp add: idealPaper_def pointAngle_zero newGame_def)

section \<open>Unfolding the loops\<close>

lemma mineLoop_lasers: "lasers (mineLoop P g i) = lasers g \<and> laserDir (mineLoop P g i) = laserDir g"
proof (induction P g i rule: mineLoop.induct)
  case (1 P g i)
  have "lasers (mineBody P g i) = lasers g \<and> laserDir (mineBody P g i) = laserDir g"
    by (simp add: mineBody_def removeMine_def Let_def)
  with 1 show ?case
    by (subst (1 2) mineLoop.simps) simp
qed

lemma explosionLoop_others:
  "lasers (explosionLoop P g i) = lasers g \<and> laserDir (explosionLoop P g i) = laserDir g
   \<and> mines (explosionLoop P g i) = mines g"
proof (induction P g i rule: explosionLoop.induct)
  case (1 P g i)
  have "lasers (explosionBody P g i) = lasers g \<and> laserDir (explosionBody P g i) = laserDir g
        \<and> mines (explosionBody P g i) = mines g"
    by (simp add: explosionBody_def Let_def)
  with 1 show ?case
    by (subst (1 2 3) explosionLoop.simps) simp
qed

lemma mineLoop_done: "length (mines g) \<le> i \<Longrightarrow> mineLoop P g i = g"
  by (subst mineLoop.simps) simp

lemma laserLoop_done: "length (lasers g) \<le> i \<Longrightarrow> laserLoop P g i = g"
  by (subst laserLoop.simps) simp

lemma laserLoop_step: "i < length (lasers g) \<Longrightarrow> laserLoop P g i = laserLoop P (laserBody P g i) (Suc i)"
  by (subst laserLoop.simps) simp

lemma hitLoop_done: "length (mines (fst s)) \<le> j \<Longrightarrow> hitLoop P c i s j = s"
  by (subst hitLoop.simps) simp

lemma laserBody_leaves:
  assumes "mines g = []" and "i < length (laserDir g)"
    and "outOfBounds g (translate (lasers g ! i) (laserDir g ! i))"
  shows "laserBody P g i = g\<lparr>lasers := removeAt i ((lasers g)[i := translate (lasers g ! i) (laserDir g ! i)]),
                              laserDir := removeAt i (laserDir g)\<rparr>"
  using assms by (simp add: laserBody_def Let_def spliceDir_def removeCur_def hitLoop_done)

lemma removeAt_update: "removeAt i (xs[i := v]) = removeAt i xs"
  by (simp add: removeAt_def)

lemma mineLoop_step: "i < length (mines g) \<Longrightarrow> mineLoop P g i = mineLoop P (mineBody P g i) (Suc i)"
  by (subst mineLoop.simps) simp

lemma hitLoop_hit:
  "j < length (mines (fst s)) \<Longrightarrow> hitTest P c (position (mines (fst s) ! j)) 30 \<Longrightarrow>
     hitLoop P c i s j = hitLoop P c i (spliceDir i (removeCur i (removeMine (fst s) j, snd s))) (Suc j)"
  by (subst hitLoop.simps) simp

lemma hitLoop_miss:
  "j < length (mines (fst s)) \<Longrightarrow> \<not> hitTest P c (position (mines (fst s) ! j)) 30 \<Longrightarrow>
     hitLoop P c i s j = hitLoop P c i s (Suc j)"
  by (subst hitLoop.simps) simp

lemma explosionLoop_done: "length (explosions g) \<le> i \<Longrightarrow> explosionLoop P g i = g"
  by (subst explosionLoop.simps) simp

lemma explosionLoop_step:
  "i < length (explosions g) \<Longrightarrow> explosionLoop P g i = explosionLoop P (explosionBody P g i) (Suc i)"
  by (subst explosionLoop.simps) simp

lemmas run_loops = mineLoop_step mineLoop_done laserLoop_step laserLoop_done hitLoop_hit hitLoop_miss
  hitLoop_done explosionLoop_step explosionLoop_done

lemma pointNormalize_horizontal:
  assumes "a \<noteq> 0"
  shows "pointNormalize \<lparr>px = a, py = 0\<rparr> len = \<lparr>px = sgn a * len, py = 0\<rparr>"
proof -
  have "sqrt (a * a) = \<bar>a\<bar>" by (rule real_sqrt_abs2)
  then show ?thesis
    using assms by (simp add: pointNormalize_def Let_def sgn_real_def abs_real_def)
qed

lemmas run_defs = update_def Let_def mineBody_def mineMove_def laserBody_def explosionBody_def
  removeMine_def removeCur_def spliceDir_def removeAt_def outOfBounds_def viewCenter_def
  translate_def rotate_def scale_def place_def add_def subtract_def multiply_def
  idealPaper_def proximityHit_def circleWidth_def newGame_def pointNormalize_horizontal

section \<open>Alignment of lasers and directions\<close>

text \<open>
  Claim C1 fails on the code. \<open>curLaser.remove()\<close> does nothing the second time, but
  \<open>laserDir.splice(i, 1)\<close> is executed for every trigger: when the first of two lasers
  leaves the play area and hits a mine in the same frame, both directions are spliced out
  while one laser stays. The lists are aligned before the update and are not after it.
\<close>

theorem update_splices_twice:
  "length (lasers strayShot) = length (laserDir strayShot)
   \<and> lasers (update idealPaper strayShot) = [place LaserSymbol \<lparr>px = 600, py = 400\<rparr>]
   \<and> laserDir (update idealPaper strayShot) = []
   \<and> length (lasers (update idealPaper strayShot)) \<noteq> length (laserDir (update idealPaper strayShot))"
  by (simp add: strayShot_def run_defs run_loops)

section \<open>The population cap\<close>

lemma update_passes:
  "update P g = (if 30 < length (mines (passes P g)) then removeMine (passes P g) 0 else passes P g)"
  by (simp add: update_def passes_def Let_def)

lemma mines_mineLoop_le: "length (mines (mineLoop P g i)) \<le> length (mines g)"
proof (induction P g i rule: mineLoop.induct)
  case (1 P g i)
  show ?case
  proof (cases "i < length (mines g)")
    case True
    with 1 have "length (mines (mineLoop P (mineBody P g i) (Suc i))) \<le> length (mines (mineBody P g i))"
      by simp
    also have "\<dots> \<le> length (mines g)" by (rule length_mines_mineBody)
    finally show ?thesis using True by (subst mineLoop.simps) simp
  next
    case False
    then show ?thesis by (subst mineLoop.simps) simp
  qed
qed

lemma mines_hitLoop_le: "length (mines (fst (hitLoop P c i s j))) \<le> length (mines (fst s))"
proof (induction P c i s j rule: hitLoop.induct)
  case (1 P c i s j)
  show ?case
  proof (cases "j < length (mines (fst s))")
    case False
    then show ?thesis by (simp add: hitLoop_done)
  next
    case True
    show ?thesis
    proof (cases "hitTest P c (position (mines (fst s) ! j)) 30")
      case hit: True
      have "length (mines (fst (spliceDir i (removeCur i (removeMine (fst s) j, snd s)))))
              \<le> length (mines (fst s))"
        by (simp add: spliceDir_def removeCur_def removeMine_def Let_def length_removeAt)
      with 1(1) [OF True hit] True hit show ?thesis
        by (simp add: hitLoop.simps [of P c i s j])
    next
      case nohit: False
      with 1(2) [OF True nohit] True show ?thesis
        by (simp add: hitLoop.simps [of P c i s j])
    qed
  qed
qed

lemma mines_laserBody_le: "length (mines (laserBody P g i)) \<le> length (mines g)"
proof -
  let ?d = "if i < length (laserDir g) then laserDir g ! i else \<lparr>px = 0, py = 0\<rparr>"
  let ?c = "translate (lasers g ! i) ?d"
  let ?g1 = "g\<lparr>lasers := (lasers g)[i := ?c]\<rparr>"
  let ?s1 = "if outOfBounds g ?c then spliceDir i (removeCur i (?g1, True)) else (?g1, True)"
  have "length (mines (fst ?s1)) = length (mines g)"
    by (simp add: spliceDir_def removeCur_def)
  moreover have "length (mines (fst (hitLoop P ?c i ?s1 0))) \<le> length (mines (fst ?s1))"
    by (rule mines_hitLoop_le)
  ultimately show ?thesis
    unfolding laserBody_def Let_def by linarith
qed

lemma mines_laserLoop_le: "length (mines (laserLoop P g i)) \<le> length (mines g)"
proof (induction P g i rule: laserLoop.induct)
  case (1 P g i)
  show ?case
  proof (cases "i < length (lasers g)")
    case True
    with 1 have "length (mines (laserLoop P (laserBody P g i) (Suc i))) \<le> length (mines (laserBody P g i))"
      by simp
    also have "\<dots> \<le> length (mines g)" by (rule mines_laserBody_le)
    finally show ?thesis using True by (simp add: laserLoop_step)
  next
    case False
    then show ?thesis by (simp add: laserLoop_done)
  qed
qed

lemma mines_passes_le: "length (mines (passes P g)) \<le> length (mines g)"
proof -
  let ?g1 = "g\<lparr>stars := map (starStep P g) (stars g)\<rparr>"
  have "length (mines (passes P g)) = length (mines (laserLoop P (mineLoop P ?g1 0) 0))"
    by (simp add: passes_def explosionLoop_others)
  also have "\<dots> \<le> length (mines (mineLoop P ?g1 0))" by (rule mines_laserLoop_le)
  also have "\<dots> \<le> length (mines ?g1)" by (rule mines_mineLoop_le)
  finally show ?thesis by simp
qed

text \<open>
  Claim C2, as amended. When more than 30 mines are present at the start of a frame
  update, fewer are present at its end; from 31 mines the bound of 30 is restored in that
  same update. When more than 30 mines are left after the mine, laser and explosion
  passes, the update destroys the single oldest one (the first of the group) and an
  explosion is generated at its position.
\<close>

theorem update_evicts_oldest:
  assumes "30 < length (mines g)"
  shows "length (mines (update P g)) < length (mines g)
       \<and> (length (mines g) = 31 \<longrightarrow> length (mines (update P g)) \<le> 30)
       \<and> (30 < length (mines (passes P g)) \<longrightarrow>
            mines (update P g) = tl (mines (passes P g))
            \<and> explosions (update P g) =
                explosions (passes P g) @ [place ExplosionSymbol (position (hd (mines (passes P g))))])"
proof -
  have le: "length (mines (passes P g)) \<le> length (mines g)" by (rule mines_passes_le)
  have cap: "30 < length (mines (passes P g)) \<Longrightarrow>
      mines (update P g) = tl (mines (passes P g))
      \<and> explosions (update P g) =
          explosions (passes P g) @ [place ExplosionSymbol (position (hd (mines (passes P g))))]"
    by (cases "mines (passes P g)") (simp_all add: update_passes removeMine_def removeAt_def Let_def)
  have len: "length (mines (update P g)) =
      (if 30 < length (mines (passes P g)) then length (mines (passes P g)) - 1
       else length (mines (passes P g)))"
    by (simp add: update_passes removeMine_def Let_def length_removeAt)
  from le assms len cap show ?thesis by auto
qed

theorem update_evicts_oldest_witness:
  "30 < length (mines (crowd 31)) \<and> length (mines (update idealPaper (crowd 31))) \<le> 30"
  using update_evicts_oldest [of "crowd 31" idealPaper]
  by (simp add: crowd_def)

lemma mineMove_fixedPart: "fixedPart g' = fixedPart g \<Longrightarrow> mineMove P g' m = mineMove P g m"
  by (simp add: fixedPart_def mineMove_def viewCenter_def)

lemma mineLoop_no_hit:
  "\<forall>m \<in> set (drop i (mines g)). \<not> hitTest P (mineMove P g m) (position (ship g)) 30
   \<Longrightarrow> length (mines (mineLoop P g i)) = length (mines g)"
proof (induction P g i rule: mineLoop.induct)
  case (1 P g i)
  show ?case
  proof (cases "i < length (mines g)")
    case False
    then show ?thesis by (simp add: mineLoop_done)
  next
    case True
    let ?g' = "g\<lparr>mines := (mines g)[i := mineMove P g (mines g ! i)]\<rparr>"
    have "mines g ! i \<in> set (drop i (mines g))"
      using True by (metis Cons_nth_drop_Suc list.set_intros(1))
    with 1(2) have nohit: "\<not> hitTest P (mineMove P g (mines g ! i)) (position (ship g)) 30"
      by blast
    then have body: "mineBody P g i = ?g'"
      by (simp add: mineBody_def Let_def)
    have fp: "fixedPart ?g' = fixedPart g" by (simp add: fixedPart_def)
    have "set (drop (Suc i) (mines ?g')) \<subseteq> set (drop i (mines g))"
      by (simp add: set_drop_subset_set_drop)
    with 1(2) have "\<forall>m \<in> set (drop (Suc i) (mines ?g')).
        \<not> hitTest P (mineMove P ?g' m) (position (ship ?g')) 30"
      by (auto simp: mineMove_fixedPart [OF fp])
    with 1(1) [OF True] body
    have "length (mines (mineLoop P ?g' (Suc i))) = length (mines ?g')" by simp
    then show ?thesis
      using True body by (subst mineLoop.simps) simp
  qed
qed

lemma mineMove_crowd:
  "mineMove idealPaper (crowd n) (place MineSymbol \<lparr>px = 1230, py = 400\<rparr>)
     = \<lparr>symbolDef = MineSymbol, position = \<lparr>px = 1227, py = 400\<rparr>, rotation = 1, scaling = 1\<rparr>"
  by (simp add: mineMove_def crowd_def newGame_def idealPaper_def viewCenter_def subtract_def
      place_def pointNormalize_horizontal translate_def add_def multiply_def rotate_def Let_def)

lemma no_hit_crowd:
  "\<not> hitTest idealPaper (mineMove idealPaper (crowd n) (place MineSymbol \<lparr>px = 1230, py = 400\<rparr>))
        (position (ship (crowd n))) 30"
  by (simp add: mineMove_crowd) (simp add: idealPaper_def proximityHit_def crowd_def newGame_def)

lemma mines_passes_crowd: "length (mines (passes idealPaper (crowd n))) = n"
proof -
  let ?g1 = "(crowd n)\<lparr>stars := map (starStep idealPaper (crowd n)) (stars (crowd n))\<rparr>"
  have fp: "fixedPart ?g1 = fixedPart (crowd n)" by (simp add: fixedPart_def)
  have ms: "mines ?g1 = replicate n (place MineSymbol \<lparr>px = 1230, py = 400\<rparr>)"
    by (simp add: crowd_def)
  have sh: "ship ?g1 = ship (crowd n)" by simp
  have "\<forall>m \<in> set (drop 0 (mines ?g1)).
      \<not> hitTest idealPaper (mineMove idealPaper ?g1 m) (position (ship ?g1)) 30"
    unfolding mineMove_fixedPart [OF fp] ms sh using no_hit_crowd by auto
  then have "length (mines (mineLoop idealPaper ?g1 0)) = length (mines ?g1)"
    by (rule mineLoop_no_hit)
  moreover have "lasers (mineLoop idealPaper ?g1 0) = []"
    by (simp add: mineLoop_lasers) (simp add: crowd_def newGame_def)
  ultimately show ?thesis
    by (simp add: passes_def explosionLoop_others laserLoop_done ms)
qed

text \<open>
  Claim C2 as stated fails from 32 mines on: one update destroys one mine, and 31 are left.
\<close>

theorem update_cap_counterexample:
  "30 < length (mines (crowd 32)) \<and> \<not> length (mines (update idealPaper (crowd 32))) \<le> 30"
  by (simp add: update_passes mines_passes_crowd removeMine_def Let_def length_removeAt)
     (simp add: crowd_def)

section \<open>What one iteration of the laser loop does\<close>

lemma hitLoop_lasers:
  "lasers (fst (hitLoop P c i s j)) =
     (if snd s \<and> (\<exists>m \<in> set (drop j (mines (fst s))). hitTest P c (position m) 30)
      then removeAt i (lasers (fst s)) else lasers (fst s))"
proof (induction P c i s j rule: hitLoop.induct)
  case (1 P c i s j)
  show ?case
  proof (cases "j < length (mines (fst s))")
    case False
    then show ?thesis by (simp add: hitLoop_done)
  next
    case True
    then have dr: "drop j (mines (fst s)) = mines (fst s) ! j # drop (Suc j) (mines (fst s))"
      by (simp add: Cons_nth_drop_Suc)
    show ?thesis
    proof (cases "hitTest P c (position (mines (fst s) ! j)) 30")
      case hit: True
      let ?s' = "spliceDir i (removeCur i (removeMine (fst s) j, snd s))"
      have s': "\<not> snd ?s'" "lasers (fst ?s') = (if snd s then removeAt i (lasers (fst s)) else lasers (fst s))"
        by (simp_all add: spliceDir_def removeCur_def removeMine_def Let_def)
      have "hitLoop P c i s j = hitLoop P c i ?s' (Suc j)"
        using True hit by (subst hitLoop.simps) simp
      with 1(1) [OF True hit] s' hit dr show ?thesis by simp
    next
      case nohit: False
      have "hitLoop P c i s j = hitLoop P c i s (Suc j)"
        using True nohit by (subst hitLoop.simps) simp
      with 1(2) [OF True nohit] nohit dr show ?thesis by simp
    qed
  qed
qed

lemma hitLoop_no_hit:
  "\<forall>m \<in> set (drop j (mines (fst s))). \<not> hitTest P c (position m) 30 \<Longrightarrow> hitLoop P c i s j = s"
proof (induction P c i s j rule: hitLoop.induct)
  case (1 P c i s j)
  show ?case
  proof (cases "j < length (mines (fst s))")
    case False
    then show ?thesis by (simp add: hitLoop_done)
  next
    case True
    then have dr: "drop j (mines (fst s)) = mines (fst s) ! j # drop (Suc j) (mines (fst s))"
      by (simp add: Cons_nth_drop_Suc)
    with 1(3) have nohit: "\<not> hitTest P c (position (mines (fst s) ! j)) 30"
      and rest: "\<forall>m \<in> set (drop (Suc j) (mines (fst s))). \<not> hitTest P c (position m) 30"
      by simp_all
    have "hitLoop P c i s j = hitLoop P c i s (Suc j)"
      using True nohit by (subst hitLoop.simps) simp
    with 1(2) [OF True nohit rest] show ?thesis by simp
  qed
qed

lemma laserBody_lasers:
  "lasers (laserBody P g i) =
     (if outOfBounds g (translate (lasers g ! i) (dirAt g i))
         \<or> (\<exists>m \<in> set (mines g). hitTest P (translate (lasers g ! i) (dirAt g i)) (position m) 30)
      then removeAt i (lasers g)
      else (lasers g)[i := translate (lasers g ! i) (dirAt g i)])"
  by (simp add: laserBody_def Let_def hitLoop_lasers dirAt_def [symmetric])
     (simp add: spliceDir_def removeCur_def removeAt_update)

lemma laserBody_no_hit:
  assumes "\<forall>m \<in> set (mines g). \<not> hitTest P (translate (lasers g ! i) (dirAt g i)) (position m) 30"
  shows "laserBody P g i =
     (if outOfBounds g (translate (lasers g ! i) (dirAt g i))
      then g\<lparr>lasers := removeAt i (lasers g), laserDir := removeAt i (laserDir g)\<rparr>
      else g\<lparr>lasers := (lasers g)[i := translate (lasers g ! i) (dirAt g i)]\<rparr>)"
proof -
  let ?c = "translate (lasers g ! i) (dirAt g i)"
  let ?g1 = "g\<lparr>lasers := (lasers g)[i := ?c]\<rparr>"
  let ?s1 = "if outOfBounds g ?c then spliceDir i (removeCur i (?g1, True)) else (?g1, True)"
  have m: "mines (fst ?s1) = mines g" by (simp add: spliceDir_def removeCur_def)
  have "hitLoop P ?c i ?s1 0 = ?s1"
    by (rule hitLoop_no_hit) (use assms m in simp)
  then have "laserBody P g i = fst ?s1"
    by (simp add: laserBody_def Let_def dirAt_def [symmetric])
  then show ?thesis
    by (simp add: spliceDir_def removeCur_def removeAt_update)
qed

lemma lasers_laserLoop_le: "length (lasers (laserLoop P g i)) \<le> length (lasers g)"
proof (induction P g i rule: laserLoop.induct)
  case (1 P g i)
  show ?case
  proof (cases "i < length (lasers g)")
    case True
    with 1 have "length (lasers (laserLoop P (laserBody P g i) (Suc i))) \<le> length (lasers (laserBody P g i))"
      by simp
    also have "\<dots> \<le> length (lasers g)" by (rule length_lasers_laserBody)
    finally show ?thesis using True by (simp add: laserLoop_step)
  next
    case False
    then show ?thesis by (simp add: laserLoop_done)
  qed
qed

lemma hitLoop_keep:
  assumes "snd s" and "i < length (lasers (fst s))"
    and "length (lasers (fst (hitLoop P c i s j))) = length (lasers (fst s))"
  shows "hitLoop P c i s j = s"
proof -
  have "\<not> (\<exists>m \<in> set (drop j (mines (fst s))). hitTest P c (position m) 30)"
    using assms by (auto simp: hitLoop_lasers length_removeAt split: if_splits)
  then show ?thesis by (intro hitLoop_no_hit) simp
qed

lemma laserBody_keep:
  assumes "i < length (lasers g)" and "length (lasers (laserBody P g i)) = length (lasers g)"
  shows "laserBody P g i = g\<lparr>lasers := (lasers g)[i := translate (lasers g ! i) (dirAt g i)]\<rparr>"
proof -
  let ?c = "translate (lasers g ! i) (dirAt g i)"
  from assms have no: "\<not> outOfBounds g ?c"
    "\<forall>m \<in> set (mines g). \<not> hitTest P ?c (position m) 30"
    by (auto simp: laserBody_lasers length_removeAt split: if_splits)
  from laserBody_no_hit [OF no(2)] no(1) show ?thesis by simp
qed

lemma laserLoop_keep:
  "length (lasers (laserLoop P g i)) = length (lasers g) \<Longrightarrow>
     laserDir (laserLoop P g i) = laserDir g
     \<and> (\<forall>k < length (lasers g). lasers (laserLoop P g i) ! k =
           (if i \<le> k then translate (lasers g ! k) (dirAt g k) else lasers g ! k))"
proof (induction P g i rule: laserLoop.induct)
  case (1 P g i)
  show ?case
  proof (cases "i < length (lasers g)")
    case False
    then show ?thesis by (simp add: laserLoop_done)
  next
    case True
    let ?g' = "laserBody P g i"
    have step: "laserLoop P g i = laserLoop P ?g' (Suc i)"
      using True by (rule laserLoop_step)
    have "length (lasers (laserLoop P ?g' (Suc i))) \<le> length (lasers ?g')"
      by (rule lasers_laserLoop_le)
    moreover have "length (lasers ?g') \<le> length (lasers g)"
      by (rule length_lasers_laserBody)
    ultimately have eq: "length (lasers ?g') = length (lasers g)"
      and eq': "length (lasers (laserLoop P ?g' (Suc i))) = length (lasers ?g')"
      using 1(2) step by simp_all
    have body: "?g' = g\<lparr>lasers := (lasers g)[i := translate (lasers g ! i) (dirAt g i)]\<rparr>"
      using True eq by (rule laserBody_keep)
    have d: "dirAt ?g' = dirAt g" by (simp add: body dirAt_def fun_eq_iff)
    from 1(1) [OF True eq']
    have ih: "laserDir (laserLoop P ?g' (Suc i)) = laserDir ?g'"
      "\<And>k. k < length (lasers ?g') \<Longrightarrow> lasers (laserLoop P ?g' (Suc i)) ! k =
           (if Suc i \<le> k then translate (lasers ?g' ! k) (dirAt ?g' k) else lasers ?g' ! k)"
      by simp_all
    have "laserDir (laserLoop P g i) = laserDir g"
      using ih(1) step by (simp add: body)
    moreover have "lasers (laserLoop P g i) ! k =
           (if i \<le> k then translate (lasers g ! k) (dirAt g k) else lasers g ! k)"
      if "k < length (lasers g)" for k
    proof -
      have "lasers (laserLoop P g i) ! k =
           (if Suc i \<le> k then translate (lasers ?g' ! k) (dirAt g k) else lasers ?g' ! k)"
        using ih(2) [of k] that eq step d by simp
      also have "\<dots> = (if i \<le> k then translate (lasers g ! k) (dirAt g k) else lasers g ! k)"
        using that by (cases "k = i") (auto simp: body)
      finally show ?thesis .
    qed
    ultimately show ?thesis by simp
  qed
qed

lemma passes_lasers:
  "lasers (passes P g) = lasers (laserLoop P (mineLoop P (g\<lparr>stars := map (starStep P g) (stars g)\<rparr>) 0) 0)
   \<and> laserDir (passes P g) = laserDir (laserLoop P (mineLoop P (g\<lparr>stars := map (starStep P g) (stars g)\<rparr>) 0) 0)"
  by (simp add: passes_def explosionLoop_others)

lemma update_lasers:
  "lasers (update P g) = lasers (passes P g) \<and> laserDir (update P g) = laserDir (passes P g)"
  by (simp add: update_passes removeMine_def Let_def)

lemma lasers_update_le: "length (lasers (update P g)) \<le> length (lasers g)"
proof -
  let ?g2 = "mineLoop P (g\<lparr>stars := map (starStep P g) (stars g)\<rparr>) 0"
  have "length (lasers (update P g)) = length (lasers (laserLoop P ?g2 0))"
    by (simp add: update_lasers passes_lasers)
  also have "\<dots> \<le> length (lasers ?g2)" by (rule lasers_laserLoop_le)
  also have "\<dots> = length (lasers g)" by (simp add: mineLoop_lasers)
  finally show ?thesis .
qed

lemma update_keep:
  assumes "length (lasers (update P g)) = length (lasers g)"
  shows "laserDir (update P g) = laserDir g
       \<and> (\<forall>k < length (lasers g). lasers (update P g) ! k = translate (lasers g ! k) (dirAt g k))"
proof -
  let ?g2 = "mineLoop P (g\<lparr>stars := map (starStep P g) (stars g)\<rparr>) 0"
  have l2: "lasers ?g2 = lasers g" and d2: "laserDir ?g2 = laserDir g"
    by (simp_all add: mineLoop_lasers)
  then have da: "dirAt ?g2 = dirAt g" by (simp add: dirAt_def fun_eq_iff)
  have "length (lasers (laserLoop P ?g2 0)) = length (lasers ?g2)"
    using assms by (simp add: update_lasers passes_lasers l2)
  from laserLoop_keep [OF this] show ?thesis
    by (simp add: update_lasers passes_lasers l2 d2 da)
qed

lemma lasers_funpow_le: "length (lasers ((update P ^^ n) g)) \<le> length (lasers g)"
proof (induction n)
  case 0
  show ?case by simp
next
  case (Suc n)
  have "length (lasers (update P ((update P ^^ n) g))) \<le> length (lasers ((update P ^^ n) g))"
    by (rule lasers_update_le)
  with Suc show ?case by simp
qed

lemma add_multiply_Suc: "add (add p (multiply d (real n))) d = add p (multiply d (real (Suc n)))"
  by (simp add: add_def multiply_def algebra_simps)

lemma funpow_keep:
  "length (lasers ((update P ^^ n) g)) = length (lasers g) \<Longrightarrow>
     laserDir ((update P ^^ n) g) = laserDir g
     \<and> (\<forall>k < length (lasers g). position (lasers ((update P ^^ n) g) ! k)
           = add (position (lasers g ! k)) (multiply (dirAt g k) (real n)))"
proof (induction n)
  case 0
  show ?case by (simp add: add_def multiply_def)
next
  case (Suc n)
  let ?h = "(update P ^^ n) g"
  have "length (lasers (update P ?h)) \<le> length (lasers ?h)" by (rule lasers_update_le)
  moreover have "length (lasers ?h) \<le> length (lasers g)" by (rule lasers_funpow_le)
  ultimately have h: "length (lasers ?h) = length (lasers g)"
    and uh: "length (lasers (update P ?h)) = length (lasers ?h)"
    using Suc.prems by simp_all
  from Suc.IH [OF h] have ihd: "laserDir ?h = laserDir g"
    and ihp: "\<And>k. k < length (lasers g) \<Longrightarrow> position (lasers ?h ! k)
           = add (position (lasers g ! k)) (multiply (dirAt g k) (real n))"
    by simp_all
  have da: "dirAt ?h = dirAt g" using ihd by (simp add: dirAt_def fun_eq_iff)
  from update_keep [OF uh] have ud: "laserDir (update P ?h) = laserDir ?h"
    and up: "\<And>k. k < length (lasers ?h) \<Longrightarrow> lasers (update P ?h) ! k = translate (lasers ?h ! k) (dirAt ?h k)"
    by simp_all
  have "position (lasers (update P ?h) ! k)
           = add (position (lasers g ! k)) (multiply (dirAt g k) (real (Suc n)))"
    if "k < length (lasers g)" for k
    using up [of k] ihp [of k] that h da by (simp add: translate_def add_multiply_Suc)
  then show ?case using ud ihd by simp
qed

lemma fired_eq:
  "fired = (newGame [])\<lparr>mouseVector := \<lparr>px = 100, py = 0\<rparr>,
                        laserDir := [\<lparr>px = 7, py = 0\<rparr>],
                        lasers := [place LaserSymbol \<lparr>px = 600, py = 400\<rparr>]\<rparr>"
  by (simp add: fired_def onMouseDown_def Let_def idealPaper_def pointAngle_def
      pointNormalize_horizontal place_def newGame_def)

lemma fired_two_updates:
  "(update idealPaper ^^ 2) fired =
     (newGame [])\<lparr>mouseVector := \<lparr>px = 100, py = 0\<rparr>,
                   laserDir := [\<lparr>px = 7, py = 0\<rparr>],
                   lasers := [place LaserSymbol \<lparr>px = 614, py = 400\<rparr>]\<rparr>"
  by (simp add: numeral_2_eq_2 fired_eq run_defs run_loops)

section \<open>The forward scan of the lasers\<close>

lemma take_removeAt: "take i (removeAt i xs) = take i xs"
  by (simp add: removeAt_def min_def)

lemma laserBody_prefix: "k \<le> i \<Longrightarrow> take k (lasers (laserBody P g i)) = take k (lasers g)"
proof -
  assume k: "k \<le> i"
  have "take i (lasers (laserBody P g i)) = take i (lasers g)"
    by (simp add: laserBody_lasers take_removeAt)
  then have "take k (take i (lasers (laserBody P g i))) = take k (take i (lasers g))" by simp
  with k show ?thesis by (simp add: min_def)
qed

lemma laserLoop_prefix: "k \<le> i \<Longrightarrow> take k (lasers (laserLoop P g i)) = take k (lasers g)"
proof (induction P g i rule: laserLoop.induct)
  case (1 P g i)
  show ?case
  proof (cases "i < length (lasers g)")
    case False
    then show ?thesis by (simp add: laserLoop_done)
  next
    case True
    from 1(1) [OF True] 1(2)
    have "take k (lasers (laserLoop P (laserBody P g i) (Suc i))) = take k (lasers (laserBody P g i))"
      by simp
    also have "\<dots> = take k (lasers g)" using 1(2) by (rule laserBody_prefix)
    finally show ?thesis using True by (simp add: laserLoop_step)
  qed
qed

lemma laserLoop_skips_next:
  assumes "Suc i < length (lasers g)" and "i < length (laserDir g)"
    and "outOfBounds g (translate (lasers g ! i) (laserDir g ! i))"
  shows "lasers (laserLoop P g i) ! i = lasers g ! Suc i"
proof -
  let ?g' = "laserBody P g i"
  have d: "dirAt g i = laserDir g ! i" using assms(2) by (simp add: dirAt_def)
  have body: "lasers ?g' = removeAt i (lasers g)"
    using assms(3) by (simp add: laserBody_lasers d)
  have "laserLoop P g i = laserLoop P ?g' (Suc i)"
    using assms(1) by (simp add: laserLoop_step)
  then have "lasers (laserLoop P g i) ! i = take (Suc i) (lasers (laserLoop P ?g' (Suc i))) ! i"
    by simp
  also have "\<dots> = take (Suc i) (lasers ?g') ! i"
    by (simp only: laserLoop_prefix [OF order_refl])
  also have "\<dots> = removeAt i (lasers g) ! i" by (simp add: body)
  also have "\<dots> = lasers g ! Suc i"
    using assms(1) by (simp add: removeAt_def nth_append min_def)
  finally show ?thesis .
qed

lemma update_two_lasers:
  assumes "lasers g = [a, b]" and "laserDir g = [da, db]" and "mines g = []"
    and "outOfBounds g (translate a da)"
  shows "lasers (update P g) = [b] \<and> laserDir (update P g) = [db]"
proof -
  let ?g1 = "g\<lparr>stars := map (starStep P g) (stars g)\<rparr>"
  have oob: "outOfBounds ?g1 (translate (lasers ?g1 ! 0) (laserDir ?g1 ! 0))"
    using assms by (simp add: outOfBounds_def)
  have g2: "mineLoop P ?g1 0 = ?g1"
    using assms(3) by (simp add: mineLoop_done)
  have body: "laserBody P ?g1 0 = ?g1\<lparr>lasers := [b], laserDir := [db]\<rparr>"
    using assms oob by (simp add: laserBody_leaves removeAt_update) (simp add: removeAt_def)
  have "laserLoop P ?g1 0 = laserLoop P (laserBody P ?g1 0) (Suc 0)"
    using assms(1) by (simp add: laserLoop_step)
  also have "\<dots> = ?g1\<lparr>lasers := [b], laserDir := [db]\<rparr>"
    by (simp add: body laserLoop_done)
  finally have g3: "laserLoop P ?g1 0 = ?g1\<lparr>lasers := [b], laserDir := [db]\<rparr>" .
  show ?thesis
    using assms(3) by (simp add: update_def Let_def g2 g3 explosionLoop_others)
qed

text \<open>
  Claim C9. The laser scan removes in place while it iterates forward: when the laser at
  index \<open>i\<close> leaves the play area it is taken out, the next laser moves down to index
  \<open>i\<close>, and the loop goes on at index \<open>i + 1\<close>, so that laser is neither moved nor
  tested in this frame and ends the scan unchanged at index \<open>i\<close>. With two lasers and no
  mines the update removes only the first one, also when the second is outside the play
  area.
\<close>

theorem update_skips_shifted_laser:
  "(Suc i < length (lasers g) \<and> i < length (laserDir g)
      \<and> outOfBounds g (translate (lasers g ! i) (laserDir g ! i))
     \<longrightarrow> lasers (laserLoop P g i) ! i = lasers g ! Suc i)
   \<and> (lasers g = [a, b] \<and> laserDir g = [da, db] \<and> mines g = []
      \<and> outOfBounds g (translate a da)
     \<longrightarrow> lasers (update P g) = [b] \<and> laserDir (update P g) = [db])"
  using laserLoop_skips_next [of i g P] update_two_lasers [of g a b da db P] by blast

theorem update_skips_shifted_laser_witness:
  "outOfBounds twoStrayLasers (lasers twoStrayLasers ! 0)
   \<and> outOfBounds twoStrayLasers (lasers twoStrayLasers ! 1)
   \<and> lasers (laserLoop idealPaper twoStrayLasers 0) ! 0 = lasers twoStrayLasers ! 1
   \<and> lasers (update idealPaper twoStrayLasers) = [lasers twoStrayLasers ! 1]
   \<and> laserDir (update idealPaper twoStrayLasers) = [laserDir twoStrayLasers ! 1]"
  using update_skips_shifted_laser [where g = twoStrayLasers and i = 0 and P = idealPaper
      and a = "place LaserSymbol \<lparr>px = 1300, py = 400\<rparr>"
      and b = "place LaserSymbol \<lparr>px = 1300, py = 400\<rparr>"
      and da = "\<lparr>px = 7, py = 0\<rparr>" and db = "\<lparr>px = 7, py = 0\<rparr>"]
  by (simp add: twoStrayLasers_def newGame_def outOfBounds_def place_def translate_def add_def)

section \<open>Position and removal of a laser\<close>

text \<open>
  Claim C5 as stated fails: a laser is also removed when it hits a mine, while its
  position is inside the play area.
\<close>

theorem laser_removed_inside_counterexample:
  "\<not> outOfBounds closeShot (translate (lasers closeShot ! 0) (laserDir closeShot ! 0))
   \<and> lasers (update idealPaper closeShot) = []"
  by (simp add: closeShot_def run_defs run_loops)

text \<open>
  Claim C5, as amended. With the two lists aligned and as long as no laser has been
  removed, the laser at index \<open>k\<close> with position \<open>p\<close> and stored direction \<open>d\<close> is at
  \<open>p + n d\<close> after \<open>n\<close> frame updates. The iteration of the scan that reaches a laser
  removes it exactly when its new position is outside \<open>[0,width] \<times> [0,height]\<close> or it
  hits a mine; when it hits no mine, its direction entry is removed with it exactly when
  the position is outside the rectangle.
\<close>

theorem laser_lifecycle:
  "(length (laserDir g) = length (lasers g) \<and> k < length (lasers g)
      \<and> length (lasers ((update P ^^ n) g)) = length (lasers g)
     \<longrightarrow> position (lasers ((update P ^^ n) g) ! k)
           = add (position (lasers g ! k)) (multiply (laserDir g ! k) (real n)))
   \<and> (i < length (laserDir g) \<longrightarrow>
        lasers (laserBody P g i) =
          (if outOfBounds g (translate (lasers g ! i) (laserDir g ! i))
              \<or> (\<exists>m \<in> set (mines g). hitTest P (translate (lasers g ! i) (laserDir g ! i)) (position m) 30)
           then removeAt i (lasers g)
           else (lasers g)[i := translate (lasers g ! i) (laserDir g ! i)])
        \<and> ((\<forall>m \<in> set (mines g). \<not> hitTest P (translate (lasers g ! i) (laserDir g ! i)) (position m) 30)
             \<longrightarrow> laserDir (laserBody P g i) =
                   (if outOfBounds g (translate (lasers g ! i) (laserDir g ! i))
                    then removeAt i (laserDir g) else laserDir g)))"
proof (intro conjI impI)
  assume a: "length (laserDir g) = length (lasers g) \<and> k < length (lasers g)
      \<and> length (lasers ((update P ^^ n) g)) = length (lasers g)"
  then have "dirAt g k = laserDir g ! k" by (simp add: dirAt_def)
  with funpow_keep [where P = P and n = n and g = g] a
  show "position (lasers ((update P ^^ n) g) ! k)
           = add (position (lasers g ! k)) (multiply (laserDir g ! k) (real n))"
    by simp
next
  assume "i < length (laserDir g)"
  then have d: "dirAt g i = laserDir g ! i" by (simp add: dirAt_def)
  show "lasers (laserBody P g i) =
          (if outOfBounds g (translate (lasers g ! i) (laserDir g ! i))
              \<or> (\<exists>m \<in> set (mines g). hitTest P (translate (lasers g ! i) (laserDir g ! i)) (position m) 30)
           then removeAt i (lasers g)
           else (lasers g)[i := translate (lasers g ! i) (laserDir g ! i)])"
    using laserBody_lasers [of P g i] by (simp only: d)
next
  assume "i < length (laserDir g)"
  then have d: "dirAt g i = laserDir g ! i" by (simp add: dirAt_def)
  assume "\<forall>m \<in> set (mines g). \<not> hitTest P (translate (lasers g ! i) (laserDir g ! i)) (position m) 30"
  then have "\<forall>m \<in> set (mines g). \<not> hitTest P (translate (lasers g ! i) (dirAt g i)) (position m) 30"
    by (simp only: d)
  from laserBody_no_hit [OF this]
  show "laserDir (laserBody P g i) =
                   (if outOfBounds g (translate (lasers g ! i) (laserDir g ! i))
                    then removeAt i (laserDir g) else laserDir g)"
    by (simp add: d)
qed

theorem laser_lifecycle_witness:
  "length (laserDir fired) = length (lasers fired) \<and> 0 < length (lasers fired)
   \<and> length (lasers ((update idealPaper ^^ 2) fired)) = length (lasers fired)
   \<and> position (lasers ((update idealPaper ^^ 2) fired) ! 0) = \<lparr>px = 614, py = 400\<rparr>
   \<and> 0 < length (laserDir fired)
   \<and> mines fired = []
   \<and> lasers (laserBody idealPaper fired 0) = [place LaserSymbol \<lparr>px = 607, py = 400\<rparr>]
   \<and> laserDir (laserBody idealPaper fired 0) = [\<lparr>px = 7, py = 0\<rparr>]"
  using laser_lifecycle [where g = fired and k = 0 and P = idealPaper and n = 2 and i = 0]
  by (simp add: fired_two_updates)
     (simp add: fired_eq newGame_def place_def add_def multiply_def translate_def outOfBounds_def)

section \<open>The ship under the mouse-move handler\<close>



end
